theory Spec2Isabelle
  imports Complex_Main "HOL-Library.Sublist"
begin

section \<open>Python values\<close>

text \<open>
  The values that travel through \<^verbatim>\<open>app/main.py\<close>: \<^verbatim>\<open>None\<close>, booleans,
  integers, strings, lists and dictionaries. A dictionary is an association list in
  insertion order, as a Python \<^verbatim>\<open>dict\<close> iterates.
\<close>

datatype pyval =
    PNone
  | PBool bool
  | PInt int
  | PStr string
  | PList "pyval list"
  | PDict "(string \<times> pyval) list"

type_synonym pydict = "(string \<times> pyval) list"

text \<open>Python's truth value of an object (\<^verbatim>\<open>bool(v)\<close>).\<close>

fun truthy :: "pyval \<Rightarrow> bool" where
  "truthy PNone = False"
| "truthy (PBool b) = b"
| "truthy (PInt i) = (i \<noteq> 0)"
| "truthy (PStr s) = (s \<noteq> [])"
| "truthy (PList xs) = (xs \<noteq> [])"
| "truthy (PDict d) = (d \<noteq> [])"

text \<open>\<^verbatim>\<open>str(n)\<close> for an integer, as an f-string renders it.\<close>

definition digit_char :: "nat \<Rightarrow> char" where
  "digit_char d = ''0123456789'' ! d"

fun str_nat :: "nat \<Rightarrow> string" where
  "str_nat n = (if n < 10 then [digit_char n] else str_nat (n div 10) @ [digit_char (n mod 10)])"

declare str_nat.simps [simp del]

definition py_str_int :: "int \<Rightarrow> string" where
  "py_str_int i = (if i < 0 then CHR ''-'' # str_nat (nat (- i)) else str_nat (nat i))"

section \<open>The parameter model: \<^verbatim>\<open>JobSearchRequest\<close>\<close>

text \<open>
  Every field of the pydantic model is \<^verbatim>\<open>Optional[...]\<close>: it holds a value or
  \<^verbatim>\<open>None\<close>. The record keeps the declaration order of the class.
\<close>

record JobSearchRequest =
  site_name :: "string list option"
  search_term :: "string option"
  google_search_term :: "string option"
  location :: "string option"
  results_wanted :: "int option"
  hours_old :: "int option"
  job_type :: "string option"
  is_remote :: "bool option"
  distance :: "int option"
  country_indeed :: "string option"
  easy_apply :: "bool option"
  description_format :: "string option"
  linkedin_fetch_description :: "bool option"
  linkedin_company_ids :: "int list option"
  offset :: "int option"
  enforce_annual_salary :: "bool option"
  proxies :: "string list option"
  ca_cert :: "string option"
  verbose :: "int option"

text \<open>
  A request body after JSON decoding, field by field: the key is missing, it is
  \<^verbatim>\<open>null\<close>, or it carries a value of the field's declared type. (A value of another
  type is outside this model: the bodies considered are well-typed.)
\<close>

datatype 'a field_input = Unset | Null | Given 'a

record request_body =
  in_site_name :: "string list field_input"
  in_search_term :: "string field_input"
  in_google_search_term :: "string field_input"
  in_location :: "string field_input"
  in_results_wanted :: "int field_input"
  in_hours_old :: "int field_input"
  in_job_type :: "string field_input"
  in_is_remote :: "bool field_input"
  in_distance :: "int field_input"
  in_country_indeed :: "string field_input"
  in_easy_apply :: "bool field_input"
  in_description_format :: "string field_input"
  in_linkedin_fetch_description :: "bool field_input"
  in_linkedin_company_ids :: "int list field_input"
  in_offset :: "int field_input"
  in_enforce_annual_salary :: "bool field_input"
  in_proxies :: "string list field_input"
  in_ca_cert :: "string field_input"
  in_verbose :: "int field_input"

text \<open>
  One entry of a pydantic \<^verbatim>\<open>ValidationError\<close>: the field it is about (\<^verbatim>\<open>loc\<close>),
  the kind of violation (\<^verbatim>\<open>type\<close>), the bound of the constraint and the rejected
  input.
\<close>

record validation_error =
  loc :: string
  err_type :: string
  bound :: int
  rejected_input :: int

text \<open>
  \<^verbatim>\<open>Field(default=d)\<close> on an \<^verbatim>\<open>Optional\<close> field: a missing key takes the
  default, \<^verbatim>\<open>null\<close> is \<^verbatim>\<open>None\<close>, a value is itself.
\<close>

fun field_value :: "'a option \<Rightarrow> 'a field_input \<Rightarrow> 'a option" where
  "field_value d Unset = d"
| "field_value d Null = None"
| "field_value d (Given v) = Some v"

text \<open>
  \<^verbatim>\<open>Field(ge=lo, le=hi)\<close> on an \<^verbatim>\<open>Optional[int]\<close>: the bounds constrain a
  supplied integer; a missing key and \<^verbatim>\<open>null\<close> pass.
\<close>

fun range_errors :: "string \<Rightarrow> int \<Rightarrow> int \<Rightarrow> int field_input \<Rightarrow> validation_error list" where
  "range_errors name lo hi (Given v) =
     (if v < lo then
        [\<lparr>loc = name, err_type = ''greater_than_equal'', bound = lo, rejected_input = v\<rparr>]
      else if hi < v then
        [\<lparr>loc = name, err_type = ''less_than_equal'', bound = hi, rejected_input = v\<rparr>]
      else [])"
| "range_errors name lo hi Unset = []"
| "range_errors name lo hi Null = []"

text \<open>The \<^verbatim>\<open>default=\<close> of every \<^verbatim>\<open>Field\<close> of the class.\<close>

definition field_defaults :: JobSearchRequest where
  "field_defaults =
     \<lparr>site_name = Some [''indeed'', ''linkedin'', ''glassdoor''],
      search_term = None,
      google_search_term = None,
      location = None,
      results_wanted = Some 20,
      hours_old = None,
      job_type = None,
      is_remote = None,
      distance = Some 50,
      country_indeed = Some ''USA'',
      easy_apply = None,
      description_format = Some ''markdown'',
      linkedin_fetch_description = Some False,
      linkedin_company_ids = None,
      offset = None,
      enforce_annual_salary = None,
      proxies = None,
      ca_cert = None,
      verbose = Some 1\<rparr>"

text \<open>
  Validation of a body against the class: the errors of all fields are collected in
  declaration order; with none, the request object is built. Only
  \<^verbatim>\<open>results_wanted\<close> (\<^verbatim>\<open>ge=1, le=1000\<close>) and \<^verbatim>\<open>verbose\<close>
  (\<^verbatim>\<open>ge=0, le=2\<close>) declare a constraint.
\<close>

definition validate :: "request_body \<Rightarrow> validation_error list + JobSearchRequest" where
  "validate body =
     (let errors = range_errors ''results_wanted'' 1 1000 (in_results_wanted body)
                 @ range_errors ''verbose'' 0 2 (in_verbose body)
      in if errors \<noteq> [] then Inl errors
         else Inr
          \<lparr>site_name = field_value (site_name field_defaults) (in_site_name body),
           search_term = field_value (search_term field_defaults) (in_search_term body),
           google_search_term =
             field_value (google_search_term field_defaults) (in_google_search_term body),
           location = field_value (location field_defaults) (in_location body),
           results_wanted = field_value (results_wanted field_defaults) (in_results_wanted body),
           hours_old = field_value (hours_old field_defaults) (in_hours_old body),
           job_type = field_value (job_type field_defaults) (in_job_type body),
           is_remote = field_value (is_remote field_defaults) (in_is_remote body),
           distance = field_value (distance field_defaults) (in_distance body),
           country_indeed = field_value (country_indeed field_defaults) (in_country_indeed body),
           easy_apply = field_value (easy_apply field_defaults) (in_easy_apply body),
           description_format =
             field_value (description_format field_defaults) (in_description_format body),
           linkedin_fetch_description =
             field_value (linkedin_fetch_description field_defaults)
               (in_linkedin_fetch_description body),
           linkedin_company_ids =
             field_value (linkedin_company_ids field_defaults) (in_linkedin_company_ids body),
           offset = field_value (offset field_defaults) (in_offset body),
           enforce_annual_salary =
             field_value (enforce_annual_salary field_defaults) (in_enforce_annual_salary body),
           proxies = field_value (proxies field_defaults) (in_proxies body),
           ca_cert = field_value (ca_cert field_defaults) (in_ca_cert body),
           verbose = field_value (verbose field_defaults) (in_verbose body)\<rparr>)"

text \<open>The body \<^verbatim>\<open>{}\<close>: every key missing.\<close>

definition empty_body :: request_body where
  "empty_body =
     \<lparr>in_site_name = Unset, in_search_term = Unset, in_google_search_term = Unset,
      in_location = Unset, in_results_wanted = Unset, in_hours_old = Unset,
      in_job_type = Unset, in_is_remote = Unset, in_distance = Unset,
      in_country_indeed = Unset, in_easy_apply = Unset, in_description_format = Unset,
      in_linkedin_fetch_description = Unset, in_linkedin_company_ids = Unset,
      in_offset = Unset, in_enforce_annual_salary = Unset, in_proxies = Unset,
      in_ca_cert = Unset, in_verbose = Unset\<rparr>"

subsection \<open>\<^verbatim>\<open>model_dump\<close>\<close>

definition dump_opt :: "('a \<Rightarrow> pyval) \<Rightarrow> 'a option \<Rightarrow> pyval" where
  "dump_opt f x = (case x of None \<Rightarrow> PNone | Some v \<Rightarrow> f v)"

text \<open>
  \<^verbatim>\<open>request.model_dump()\<close>: one key per declared field, in declaration order, an
  unset field as \<^verbatim>\<open>None\<close>.
\<close>

definition model_dump :: "JobSearchRequest \<Rightarrow> pydict" where
  "model_dump r =
     [(''site_name'', dump_opt (\<lambda>xs. PList (map PStr xs)) (site_name r)),
      (''search_term'', dump_opt PStr (search_term r)),
      (''google_search_term'', dump_opt PStr (google_search_term r)),
      (''location'', dump_opt PStr (location r)),
      (''results_wanted'', dump_opt PInt (results_wanted r)),
      (''hours_old'', dump_opt PInt (hours_old r)),
      (''job_type'', dump_opt PStr (job_type r)),
      (''is_remote'', dump_opt PBool (is_remote r)),
      (''distance'', dump_opt PInt (distance r)),
      (''country_indeed'', dump_opt PStr (country_indeed r)),
      (''easy_apply'', dump_opt PBool (easy_apply r)),
      (''description_format'', dump_opt PStr (description_format r)),
      (''linkedin_fetch_description'', dump_opt PBool (linkedin_fetch_description r)),
      (''linkedin_company_ids'', dump_opt (\<lambda>xs. PList (map PInt xs)) (linkedin_company_ids r)),
      (''offset'', dump_opt PInt (offset r)),
      (''enforce_annual_salary'', dump_opt PBool (enforce_annual_salary r)),
      (''proxies'', dump_opt (\<lambda>xs. PList (map PStr xs)) (proxies r)),
      (''ca_cert'', dump_opt PStr (ca_cert r)),
      (''verbose'', dump_opt PInt (verbose r))]"

section \<open>The parameter normalizer: \<^verbatim>\<open>clean_search_params\<close>\<close>

text \<open>
  \<^verbatim>\<open>{k: v for k, v in params.items() if v is not None}\<close>: the entries are visited in
  order and kept unless the value is \<^verbatim>\<open>None\<close>.
\<close>

definition clean_search_params :: "pydict \<Rightarrow> pydict" where
  "clean_search_params params = filter (\<lambda>(k, v). v \<noteq> PNone) params"

section \<open>Responses, exceptions and the runtime environment\<close>

record 'rec JobSearchResponse =
  success :: bool
  total_jobs :: int
  jobs :: "'rec list"
  search_params :: pydict
  execution_time :: real
  message :: string

record HealthResponse =
  status :: string
  version :: string
  timestamp :: string

text \<open>
  What the handler can catch. The two \<^verbatim>\<open>except\<close> clauses of \<^verbatim>\<open>search_jobs\<close>
  tell an \<^verbatim>\<open>ImportError\<close> from every other \<^verbatim>\<open>Exception\<close>; each carries its
  message, \<^verbatim>\<open>str(e)\<close>. (Signals outside \<^verbatim>\<open>Exception\<close>, such as
  \<^verbatim>\<open>KeyboardInterrupt\<close>, are no faults of the engine and are left out.)
\<close>

datatype py_exception = ImportError string | Exception string

text \<open>\<^verbatim>\<open>HTTPException(status_code=..., detail=...)\<close>: a status and a detail, nothing else.\<close>

datatype http_exception = HTTPException (status_code: nat) (detail: string)

text \<open>
  The pandas operations that \<^verbatim>\<open>convert_dataframe_to_dict\<close> calls are library code:
  they are parameters of the model, over an abstract type of data frames, of boolean
  masks and of result records. What \<^verbatim>\<open>where\<close> stores in a cell depends on the
  column's dtype inside the library; the library on typed columns is given further on.
\<close>

record ('df, 'mask, 'rec) pandas =
  pd_notnull :: "'df \<Rightarrow> 'mask"
  df_where :: "'df \<Rightarrow> 'mask \<Rightarrow> pyval \<Rightarrow> 'df"
  df_to_dict :: "'df \<Rightarrow> string \<Rightarrow> 'rec list"

text \<open>
  What a request reads from its environment: the wall clock
  (\<^verbatim>\<open>datetime.now().isoformat()\<close>, and \<^verbatim>\<open>time.time()\<close> before and after the
  engine call) and the scraping engine. \<^verbatim>\<open>from jobspy import scrape_jobs\<close> raises or
  yields the engine's entry point; the entry point, called with the keyword arguments,
  raises or returns a data frame.
\<close>

record 'df world =
  datetime_now_isoformat :: string
  time_at_start :: real
  time_at_end :: real
  import_jobspy :: "py_exception + (pydict \<Rightarrow> py_exception + 'df)"

section \<open>Utility functions\<close>

text \<open>
  \<^verbatim>\<open>df = df.where(pd.notnull(df), None); return df.to_dict("records")\<close>
\<close>

definition convert_dataframe_to_dict :: "('df, 'mask, 'rec) pandas \<Rightarrow> 'df \<Rightarrow> 'rec list" where
  "convert_dataframe_to_dict pd df =
     (let df' = df_where pd df (pd_notnull pd df) PNone
      in df_to_dict pd df' ''records'')"

section \<open>Routes\<close>

subsection \<open>\<^verbatim>\<open>GET /\<close> and \<^verbatim>\<open>GET /health\<close>\<close>

definition root :: "'df world \<Rightarrow> HealthResponse" where
  "root w = \<lparr>status = ''healthy'', version = ''1.0.0'', timestamp = datetime_now_isoformat w\<rparr>"

definition health_check :: "'df world \<Rightarrow> HealthResponse" where
  "health_check w =
     \<lparr>status = ''healthy'', version = ''1.0.0'', timestamp = datetime_now_isoformat w\<rparr>"

subsection \<open>\<^verbatim>\<open>POST /search\<close>\<close>

text \<open>
  The two \<^verbatim>\<open>except\<close> clauses, in their order: an \<^verbatim>\<open>ImportError\<close> gives the fixed
  detail, any other exception gives its message after \<^verbatim>\<open>Search failed: \<close>.
\<close>

fun except_clauses :: "py_exception \<Rightarrow> http_exception" where
  "except_clauses (ImportError m) = HTTPException 500 ''JobSpy library not available''"
| "except_clauses (Exception m) = HTTPException 500 (''Search failed: '' @ m)"

text \<open>
  The handler. Its result is the raised \<^verbatim>\<open>HTTPException\<close> or the returned
  \<^verbatim>\<open>JobSearchResponse\<close>, together with the log of the engine's invocations: the
  argument bundle of each call of \<^verbatim>\<open>scrape_jobs\<close>, in order. The whole body stands
  in one \<^verbatim>\<open>try\<close>, so the import and the call of the engine reach the same two
  \<^verbatim>\<open>except\<close> clauses. The calls of the logger change no result and are left out.
\<close>

definition search_jobs ::
  "('df, 'mask, 'rec) pandas \<Rightarrow> 'df world \<Rightarrow> JobSearchRequest \<Rightarrow>
   (http_exception + 'rec JobSearchResponse) \<times> pydict list" where
  "search_jobs pd w request =
     (case import_jobspy w of
        Inl e \<Rightarrow> (Inl (except_clauses e), [])
      | Inr scrape_jobs \<Rightarrow>
          (let start_time = time_at_start w;
               search_params = clean_search_params (model_dump request)
           in case scrape_jobs search_params of
                Inl e \<Rightarrow> (Inl (except_clauses e), [search_params])
              | Inr jobs_df \<Rightarrow>
                  (let jobs_list = convert_dataframe_to_dict pd jobs_df;
                       execution_time = time_at_end w - start_time
                   in (Inr \<lparr>success = True,
                             total_jobs = int (length jobs_list),
                             jobs = jobs_list,
                             search_params = search_params,
                             execution_time = execution_time,
                             message = ''Successfully found ''
                               @ py_str_int (int (length jobs_list)) @ '' jobs''\<rparr>,
                       [search_params]))))"

text \<open>
  The endpoint as the framework serves it: the body is validated against
  \<^verbatim>\<open>JobSearchRequest\<close> first; a validation error is answered with status 422 and the
  handler is not entered; otherwise the handler runs on the request object.
\<close>

datatype 'rec search_reply =
    Reply200 "'rec JobSearchResponse"
  | Reply422 "validation_error list"
  | ReplyError nat string

definition post_search ::
  "('df, 'mask, 'rec) pandas \<Rightarrow> 'df world \<Rightarrow> request_body \<Rightarrow> 'rec search_reply \<times> pydict list" where
  "post_search pd w body =
     (case validate body of
        Inl errors \<Rightarrow> (Reply422 errors, [])
      | Inr request \<Rightarrow>
          (case search_jobs pd w request of
             (Inl (HTTPException code text), calls) \<Rightarrow> (ReplyError code text, calls)
           | (Inr response, calls) \<Rightarrow> (Reply200 response, calls)))"

subsection \<open>\<^verbatim>\<open>GET /sites\<close>\<close>

definition supported_sites :: "string list" where
  "supported_sites =
     [''linkedin'', ''indeed'', ''glassdoor'', ''zip_recruiter'', ''google'', ''bayt'', ''naukri'']"

definition indeed_glassdoor_countries :: "string list" where
  "indeed_glassdoor_countries =
     [''Argentina'', ''Australia'', ''Austria'', ''Bahrain'', ''Belgium'', ''Brazil'',
      ''Canada'', ''Chile'', ''China'', ''Colombia'', ''Costa Rica'', ''Czech Republic'',
      ''Denmark'', ''Ecuador'', ''Egypt'', ''Finland'', ''France'', ''Germany'', ''Greece'',
      ''Hong Kong'', ''Hungary'', ''India'', ''Indonesia'', ''Ireland'', ''Israel'', ''Italy'',
      ''Japan'', ''Kuwait'', ''Luxembourg'', ''Malaysia'', ''Mexico'', ''Morocco'',
      ''Netherlands'', ''New Zealand'', ''Nigeria'', ''Norway'', ''Oman'', ''Pakistan'',
      ''Panama'', ''Peru'', ''Philippines'', ''Poland'', ''Portugal'', ''Qatar'', ''Romania'',
      ''Saudi Arabia'', ''Singapore'', ''South Africa'', ''South Korea'', ''Spain'', ''Sweden'',
      ''Switzerland'', ''Taiwan'', ''Thailand'', ''Turkey'', ''Ukraine'',
      ''United Arab Emirates'', ''UK'', ''USA'', ''Uruguay'', ''Venezuela'', ''Vietnam'']"

text \<open>
  The handler builds the same literal on every call; it reads nothing of the
  environment. (The example in the first tip is wrapped in single quotes and holds a
  double-quoted phrase; both characters are written by their codes.)
\<close>

definition get_supported_sites :: "'df world \<Rightarrow> pyval" where
  "get_supported_sites w =
     PDict
      [(''supported_sites'', PList (map PStr supported_sites)),
       (''job_types'', PList [PStr ''fulltime'', PStr ''parttime'', PStr ''internship'', PStr ''contract'']),
       (''description_formats'', PList [PStr ''markdown'', PStr ''html'']),
       (''supported_countries'', PDict
          [(''indeed_glassdoor'', PList (map PStr indeed_glassdoor_countries)),
           (''linkedin'', PStr ''Global (uses location parameter)''),
           (''zip_recruiter'', PStr ''US/Canada only''),
           (''bayt'', PStr ''International''),
           (''google'', PStr ''Global (requires google_search_term)''),
           (''naukri'', PStr ''India focused'')]),
       (''limitations'', PDict
          [(''indeed'', PStr ''Only one of: hours_old, (job_type & is_remote), easy_apply''),
           (''linkedin'', PStr ''Only one of: hours_old, easy_apply. Rate limited ~10 pages per IP''),
           (''google'', PStr ''Requires specific google_search_term syntax''),
           (''general'', PStr ''All sites capped at ~1000 jobs per search'')]),
       (''tips'', PDict
          [(''indeed_search'', PStr
              (''Use quotes for exact match, - to exclude, OR for alternatives. Example: ''
               @ [CHR 0x27, CHR 0x22] @ ''engineering intern'' @ [CHR 0x22]
               @ '' software summer (java OR python OR c++) 2025 -tax -marketing''
               @ [CHR 0x27])),
           (''google_search'', PStr ''Copy exact search from Google Jobs browser after applying filters''),
           (''rate_limiting'', PStr
              ''Use proxies for LinkedIn, wait between scrapes, Indeed has no rate limiting'')])]"

section \<open>The table library on typed columns\<close>

text \<open>
  A data frame as the engine returns it: named columns, each with a dtype, and rows of
  cells. A \<^verbatim>\<open>float64\<close> column holds numbers and the not-a-number marker; an
  \<^verbatim>\<open>object\<close> column holds any Python object, \<^verbatim>\<open>None\<close> and the marker included.
\<close>

datatype dtype = Float64 | Object

datatype cell = CNaN | CFloat real | CObj pyval

record DataFrame =
  columns :: "(string \<times> dtype) list"
  rows :: "cell list list"

text \<open>\<^verbatim>\<open>pd.isnull\<close> on one cell: the marker and \<^verbatim>\<open>None\<close> are missing values.\<close>

fun missing :: "cell \<Rightarrow> bool" where
  "missing CNaN = True"
| "missing (CObj v) = (v = PNone)"
| "missing (CFloat x) = False"

text \<open>
  What a column stores when \<^verbatim>\<open>where\<close> writes the replacement into it. A
  \<^verbatim>\<open>float64\<close> column cannot hold \<^verbatim>\<open>None\<close>: the library takes \<^verbatim>\<open>None\<close> for
  the column's own missing value and writes the marker. An \<^verbatim>\<open>object\<close> column
  stores the object itself. (The source passes \<^verbatim>\<open>None\<close> only.)
\<close>

fun store :: "dtype \<Rightarrow> pyval \<Rightarrow> cell" where
  "store Float64 other = (if other = PNone then CNaN else CObj other)"
| "store Object other = CObj other"

text \<open>
  \<^verbatim>\<open>pd.notnull(df)\<close> is the mask of the cells that are not missing;
  \<^verbatim>\<open>df.where(cond, other)\<close> keeps a cell where the mask holds and stores
  \<^verbatim>\<open>other\<close> in its column elsewhere; \<^verbatim>\<open>df.to_dict("records")\<close> lists one
  dictionary per row, from column name to cell, in the order of the rows.
\<close>

definition notnull :: "DataFrame \<Rightarrow> bool list list" where
  "notnull df = map (map (\<lambda>c. \<not> missing c)) (rows df)"

definition where_row :: "(string \<times> dtype) list \<Rightarrow> pyval \<Rightarrow> cell list \<Rightarrow> bool list \<Rightarrow> cell list" where
  "where_row cols other row keep_row =
     map2 (\<lambda>((name, d), c) keep. if keep then c else store d other) (zip cols row) keep_row"

definition where_frame :: "DataFrame \<Rightarrow> bool list list \<Rightarrow> pyval \<Rightarrow> DataFrame" where
  "where_frame df cond other = df\<lparr>rows := map2 (where_row (columns df) other) (rows df) cond\<rparr>"

definition to_dict :: "DataFrame \<Rightarrow> string \<Rightarrow> (string \<times> cell) list list" where
  "to_dict df orient = map (\<lambda>row. zip (map fst (columns df)) row) (rows df)"

definition typed_pandas :: "(DataFrame, bool list list, (string \<times> cell) list) pandas" where
  "typed_pandas = \<lparr>pd_notnull = notnull, df_where = where_frame, df_to_dict = to_dict\<rparr>"

section \<open>Example inputs\<close>

text \<open>
  A stand-in for the table library, used to run the handler on concrete inputs: a data
  frame is the list of its rows, a mask the list of its rows of booleans.
\<close>

definition table_pandas :: "(pydict list, bool list list, pydict) pandas" where
  "table_pandas =
     \<lparr>pd_notnull = map (map (\<lambda>(k, v). v \<noteq> PNone)),
      df_where = (\<lambda>df mask other.
        map2 (\<lambda>row keep_row. map2 (\<lambda>(k, v) keep. (k, if keep then v else other)) row keep_row)
          df mask),
      df_to_dict = (\<lambda>df orient. df)\<rparr>"

text \<open>
  A search for \<^verbatim>\<open>software engineer\<close> in Austin on one site, five results wanted; the
  request object it validates to; the keyword arguments the engine receives.
\<close>

definition scenario_a_body :: request_body where
  "scenario_a_body =
     empty_body\<lparr>in_site_name := Given [''indeed''],
                in_search_term := Given ''software engineer'',
                in_location := Given ''Austin, TX'',
                in_results_wanted := Given 5\<rparr>"

definition scenario_a_request :: JobSearchRequest where
  "scenario_a_request =
     field_defaults\<lparr>site_name := Some [''indeed''],
                    search_term := Some ''software engineer'',
                    location := Some ''Austin, TX'',
                    results_wanted := Some 5\<rparr>"

definition scenario_a_params :: pydict where
  "scenario_a_params =
     [(''site_name'', PList [PStr ''indeed'']),
      (''search_term'', PStr ''software engineer''),
      (''location'', PStr ''Austin, TX''),
      (''results_wanted'', PInt 5),
      (''distance'', PInt 50),
      (''country_indeed'', PStr ''USA''),
      (''description_format'', PStr ''markdown''),
      (''linkedin_fetch_description'', PBool False),
      (''verbose'', PInt 1)]"

definition five_jobs :: "pydict list" where
  "five_jobs =
     map (\<lambda>i. [(''title'', PStr ''Software Engineer''), (''id'', PInt i)]) [1, 2, 3, 4, 5]"

definition scenario_a_response :: "pydict JobSearchResponse" where
  "scenario_a_response =
     \<lparr>success = True, total_jobs = 5, jobs = five_jobs, search_params = scenario_a_params,
      execution_time = 2, message = ''Successfully found 5 jobs''\<rparr>"

text \<open>
  Bodies with one field out of range, one with an empty list of sites (and the keyword
  arguments it leads to), and one with falsy values.
\<close>

definition scenario_b_body :: request_body where
  "scenario_b_body = empty_body\<lparr>in_results_wanted := Given 2000\<rparr>"

definition loud_body :: request_body where
  "loud_body = empty_body\<lparr>in_verbose := Given 3\<rparr>"

definition no_sites_body :: request_body where
  "no_sites_body = empty_body\<lparr>in_site_name := Given []\<rparr>"

definition no_sites_params :: pydict where
  "no_sites_params =
     [(''site_name'', PList []),
      (''results_wanted'', PInt 20),
      (''distance'', PInt 50),
      (''country_indeed'', PStr ''USA''),
      (''description_format'', PStr ''markdown''),
      (''linkedin_fetch_description'', PBool False),
      (''verbose'', PInt 1)]"

definition falsy_body :: request_body where
  "falsy_body =
     empty_body\<lparr>in_is_remote := Given False, in_distance := Given 0, in_proxies := Given []\<rparr>"

definition falsy_request :: JobSearchRequest where
  "falsy_request =
     field_defaults\<lparr>is_remote := Some False, distance := Some 0, proxies := Some []\<rparr>"

text \<open>
  Two jobs as a data frame: the titles in an \<^verbatim>\<open>object\<close> column, the lower salary
  bounds in a \<^verbatim>\<open>float64\<close> column; the second job has neither.
\<close>

definition salary_frame :: DataFrame where
  "salary_frame =
     \<lparr>columns = [(''title'', Object), (''min_amount'', Float64)],
      rows = [[CObj (PStr ''Engineer''), CFloat 50000], [CNaN, CNaN]]\<rparr>"

text \<open>
  Environments: the engine returns a given data frame; the engine raises when it is
  called; the import of the engine raises.
\<close>

definition engine_returning :: "'df \<Rightarrow> 'df world" where
  "engine_returning df =
     \<lparr>datetime_now_isoformat = ''2025-01-01T00:00:00'', time_at_start = 10, time_at_end = 12,
      import_jobspy = Inr (\<lambda>params. Inr df)\<rparr>"

definition engine_raising :: "py_exception \<Rightarrow> (pydict list) world" where
  "engine_raising e =
     \<lparr>datetime_now_isoformat = ''2025-01-01T00:00:00'', time_at_start = 10, time_at_end = 12,
      import_jobspy = Inr (\<lambda>params. Inl e)\<rparr>"

definition engine_missing :: "py_exception \<Rightarrow> (pydict list) world" where
  "engine_missing e =
     \<lparr>datetime_now_isoformat = ''2025-01-01T00:00:00'', time_at_start = 10, time_at_end = 12,
      import_jobspy = Inl e\<rparr>"

section \<open>Helper lemmas\<close>

lemma map_of_clean_search_params:
  "distinct (map fst params) \<Longrightarrow>
   map_of (clean_search_params params) k =
     (if map_of params k = Some PNone then None else map_of params k)"
proof (induction params)
  case Nil
  show ?case by (simp add: clean_search_params_def)
next
  case (Cons entry params)
  obtain k' v where entry: "entry = (k', v)" by (cases entry)
  from Cons.prems have fresh: "k' \<notin> fst ` set params" and rest: "distinct (map fst params)"
    by (simp_all add: entry)
  have ih: "map_of (filter (\<lambda>(k, v). v \<noteq> PNone) params) k =
      (if map_of params k = Some PNone then None else map_of params k)"
    using Cons.IH [OF rest] by (simp add: clean_search_params_def)
  show ?case
  proof (cases "k = k'")
    case False
    then show ?thesis by (simp add: clean_search_params_def entry ih)
  next
    case True
    from fresh have absent: "map_of params k' = None"
      by (simp add: map_of_eq_None_iff)
    show ?thesis
      using True absent ih
      by (simp add: clean_search_params_def entry)
  qed
qed

lemma keys_model_dump: "distinct (map fst (model_dump r))"
  by (simp add: model_dump_def)

lemma validate_falsy_body: "validate falsy_body = Inr falsy_request"
  by (simp add: validate_def falsy_body_def falsy_request_def empty_body_def field_defaults_def)

lemma validate_scenario_a: "validate scenario_a_body = Inr scenario_a_request"
  by (simp add: validate_def scenario_a_body_def scenario_a_request_def empty_body_def
      field_defaults_def)

lemma validate_scenario_b:
  "validate scenario_b_body =
     Inl [\<lparr>loc = ''results_wanted'', err_type = ''less_than_equal'', bound = 1000,
            rejected_input = 2000\<rparr>]"
  by (simp add: validate_def scenario_b_body_def empty_body_def)

lemma validate_loud_body:
  "validate loud_body =
     Inl [\<lparr>loc = ''verbose'', err_type = ''less_than_equal'', bound = 2, rejected_input = 3\<rparr>]"
  by (simp add: validate_def loud_body_def empty_body_def)

lemma clean_scenario_a: "clean_search_params (model_dump scenario_a_request) = scenario_a_params"
  by (simp add: clean_search_params_def model_dump_def scenario_a_request_def field_defaults_def
      dump_opt_def scenario_a_params_def)

lemma py_str_int_5: "py_str_int 5 = ''5''"
  by (simp add: py_str_int_def str_nat.simps digit_char_def)

lemma convert_five_jobs: "convert_dataframe_to_dict table_pandas five_jobs = five_jobs"
  by (simp add: convert_dataframe_to_dict_def table_pandas_def five_jobs_def)

lemma search_scenario_a:
  "search_jobs table_pandas (engine_returning five_jobs) scenario_a_request =
     (Inr scenario_a_response, [scenario_a_params])"
proof -
  have len: "length five_jobs = 5"
    by (simp add: five_jobs_def)
  show ?thesis
    by (simp add: search_jobs_def engine_returning_def clean_scenario_a convert_five_jobs len
        py_str_int_5 scenario_a_response_def)
qed

lemma range_errors_loc: "e \<in> set (range_errors name lo hi x) \<Longrightarrow> loc e = name"
  by (cases x) (auto split: if_splits)

lemma range_errors_outside:
  "v < lo \<or> hi < v \<Longrightarrow>
   \<exists>e. range_errors name lo hi (Given v) = [e] \<and> loc e = name \<and> rejected_input e = v"
  by auto

lemma validate_errors:
  assumes "validate body = Inl errors"
  shows "errors = range_errors ''results_wanted'' 1 1000 (in_results_wanted body)
                 @ range_errors ''verbose'' 0 2 (in_verbose body)"
    and "errors \<noteq> []"
  using assms by (auto simp: validate_def Let_def split: if_splits)

lemma search_jobs_outcome:
  "(\<exists>response. fst (search_jobs pd w request) = Inr response \<and> success response)
   \<or> (\<exists>text. fst (search_jobs pd w request) = Inl (HTTPException 500 text))"
proof (cases "import_jobspy w")
  case (Inl e)
  then show ?thesis by (cases e) (simp_all add: search_jobs_def)
next
  case (Inr scrape_jobs)
  show ?thesis
  proof (cases "scrape_jobs (clean_search_params (model_dump request))")
    case (Inl e)
    with Inr show ?thesis by (cases e) (simp_all add: search_jobs_def)
  next
    case (Inr jobs_df)
    with \<open>import_jobspy w = Inr scrape_jobs\<close> show ?thesis
      by (simp add: search_jobs_def Let_def)
  qed
qed

lemma search_jobs_calls:
  "import_jobspy w = Inr scrape_jobs \<Longrightarrow>
   snd (search_jobs pd w request) = [clean_search_params (model_dump request)]"
  by (cases "scrape_jobs (clean_search_params (model_dump request))")
     (simp_all add: search_jobs_def Let_def)

lemma post_search_calls:
  "validate body = Inr request \<Longrightarrow> snd (post_search pd w body) = snd (search_jobs pd w request)"
  by (auto simp: post_search_def split: prod.splits sum.splits http_exception.splits)

lemma site_name_param:
  "site_name request = Some names \<Longrightarrow>
   map_of (clean_search_params (model_dump request)) ''site_name'' = Some (PList (map PStr names))"
  by (simp add: clean_search_params_def model_dump_def dump_opt_def)

lemma validate_site_name:
  "validate body = Inr request \<Longrightarrow>
   site_name request = field_value (site_name field_defaults) (in_site_name body)"
  by (auto simp: validate_def Let_def split: if_splits)

text \<open>
  The conversion on typed columns, cell by cell: on a frame whose rows have one cell per
  column, a cell that is not missing is carried over, and a missing cell becomes what
  its column stores for \<^verbatim>\<open>None\<close>.
\<close>

lemma where_row_notnull:
  "length row = length cols \<Longrightarrow>
   where_row cols PNone row (map (\<lambda>c. \<not> missing c) row) =
     map2 (\<lambda>(name, d) c. if missing c then store d PNone else c) cols row"
proof (induction row arbitrary: cols)
  case Nil
  then show ?case by (simp add: where_row_def)
next
  case (Cons c row)
  then obtain col cols' where cols: "cols = col # cols'" by (cases cols) auto
  obtain name d where col: "col = (name, d)" by (cases col)
  from Cons.prems have "length row = length cols'" by (simp add: cols)
  from Cons.IH [OF this] show ?case
    by (simp add: where_row_def cols col)
qed

lemma where_rows_notnull:
  "\<forall>row \<in> set rs. length row = length cols \<Longrightarrow>
   map2 (where_row cols PNone) rs (map (map (\<lambda>c. \<not> missing c)) rs) =
     map (\<lambda>row. map2 (\<lambda>(name, d) c. if missing c then store d PNone else c) cols row) rs"
  by (induction rs) (simp_all add: where_row_notnull)

lemma convert_typed_frame:
  assumes "\<forall>row \<in> set (rows df). length row = length (columns df)"
  shows "convert_dataframe_to_dict typed_pandas df =
     map (\<lambda>row. zip (map fst (columns df))
            (map2 (\<lambda>(name, d) c. if missing c then store d PNone else c) (columns df) row))
       (rows df)"
  using where_rows_notnull [OF assms]
  by (simp add: convert_dataframe_to_dict_def typed_pandas_def notnull_def where_frame_def
      to_dict_def)

section \<open>The parameter normalizer\<close>

text \<open>
  Claim C1. For every request object, the normalizer's output has no key whose value in
  the request is absent (\<^verbatim>\<open>None\<close>), and it keeps, with its value, every key whose
  value is not absent; in particular the falsy values \<^verbatim>\<open>0\<close>, \<^verbatim>\<open>False\<close> and the
  empty list are kept. Removal goes by absence, not by truth value.
\<close>

theorem normalizer_removes_only_absent:
  "(map_of (model_dump request) k = Some PNone \<longrightarrow>
      k \<notin> fst ` set (clean_search_params (model_dump request)))
   \<and> (map_of (model_dump request) k = Some v \<and> v \<noteq> PNone \<longrightarrow>
      map_of (clean_search_params (model_dump request)) k = Some v)
   \<and> (map_of (model_dump request) k = Some v \<and> v \<in> {PInt 0, PBool False, PList []} \<longrightarrow>
      \<not> truthy v \<and> map_of (clean_search_params (model_dump request)) k = Some v)"
proof -
  have eq: "map_of (clean_search_params (model_dump request)) k =
      (if map_of (model_dump request) k = Some PNone then None else map_of (model_dump request) k)"
    by (rule map_of_clean_search_params [OF keys_model_dump])
  have gone: "k \<notin> fst ` set (clean_search_params (model_dump request))"
    if "map_of (model_dump request) k = Some PNone"
    using that eq by (simp add: map_of_eq_None_iff)
  have kept: "map_of (clean_search_params (model_dump request)) k = Some v"
    if "map_of (model_dump request) k = Some v" "v \<noteq> PNone"
    using that eq by simp
  have falsy: "\<not> truthy v \<and> v \<noteq> PNone" if "v \<in> {PInt 0, PBool False, PList []}"
    using that by auto
  show ?thesis using gone kept falsy by blast
qed

text \<open>
  A valid request with \<^verbatim>\<open>distance=0\<close>, \<^verbatim>\<open>is_remote=false\<close> and \<^verbatim>\<open>proxies=[]\<close>:
  the unset \<^verbatim>\<open>hours_old\<close> is gone, the three falsy values stay.
\<close>

theorem normalizer_removes_only_absent_witness:
  "validate falsy_body = Inr falsy_request
   \<and> map_of (model_dump falsy_request) ''hours_old'' = Some PNone
   \<and> ''hours_old'' \<notin> fst ` set (clean_search_params (model_dump falsy_request))
   \<and> map_of (model_dump falsy_request) ''distance'' = Some (PInt 0)
   \<and> map_of (clean_search_params (model_dump falsy_request)) ''distance'' = Some (PInt 0)
   \<and> map_of (model_dump falsy_request) ''is_remote'' = Some (PBool False)
   \<and> map_of (clean_search_params (model_dump falsy_request)) ''is_remote'' = Some (PBool False)
   \<and> map_of (model_dump falsy_request) ''proxies'' = Some (PList [])
   \<and> map_of (clean_search_params (model_dump falsy_request)) ''proxies'' = Some (PList [])"
proof -
  have dump: "map_of (model_dump falsy_request) ''hours_old'' = Some PNone"
    "map_of (model_dump falsy_request) ''distance'' = Some (PInt 0)"
    "map_of (model_dump falsy_request) ''is_remote'' = Some (PBool False)"
    "map_of (model_dump falsy_request) ''proxies'' = Some (PList [])"
    by (simp_all add: model_dump_def falsy_request_def field_defaults_def dump_opt_def)
  show ?thesis
    using dump validate_falsy_body
      normalizer_removes_only_absent [where request = falsy_request and k = "''hours_old''"]
      normalizer_removes_only_absent [where request = falsy_request and k = "''distance''"
        and v = "PInt 0"]
      normalizer_removes_only_absent [where request = falsy_request and k = "''is_remote''"
        and v = "PBool False"]
      normalizer_removes_only_absent [where request = falsy_request and k = "''proxies''"
        and v = "PList []"]
    by simp
qed

text \<open>
  Claim C2. The body with every field unset validates to the declared defaults, and
  normalizing it yields exactly \<^verbatim>\<open>site_name\<close>, \<^verbatim>\<open>results_wanted=20\<close>,
  \<^verbatim>\<open>distance=50\<close>, \<^verbatim>\<open>country_indeed="USA"\<close>, \<^verbatim>\<open>description_format="markdown"\<close>,
  \<^verbatim>\<open>linkedin_fetch_description=False\<close> and \<^verbatim>\<open>verbose=1\<close>, in the order of the
  declarations, and no other key; as a mapping it is the one the specification lists.
\<close>

theorem defaults_round_trip:
  "validate empty_body = Inr field_defaults
   \<and> clean_search_params (model_dump field_defaults) =
       [(''site_name'', PList [PStr ''indeed'', PStr ''linkedin'', PStr ''glassdoor'']),
        (''results_wanted'', PInt 20),
        (''distance'', PInt 50),
        (''country_indeed'', PStr ''USA''),
        (''description_format'', PStr ''markdown''),
        (''linkedin_fetch_description'', PBool False),
        (''verbose'', PInt 1)]
   \<and> map_of (clean_search_params (model_dump field_defaults)) =
       map_of
        [(''site_name'', PList [PStr ''indeed'', PStr ''linkedin'', PStr ''glassdoor'']),
         (''results_wanted'', PInt 20),
         (''verbose'', PInt 1),
         (''distance'', PInt 50),
         (''country_indeed'', PStr ''USA''),
         (''description_format'', PStr ''markdown''),
         (''linkedin_fetch_description'', PBool False)]"
proof -
  have accepted: "validate empty_body = Inr field_defaults"
    by (simp add: validate_def empty_body_def field_defaults_def)
  have cleaned: "clean_search_params (model_dump field_defaults) =
       [(''site_name'', PList [PStr ''indeed'', PStr ''linkedin'', PStr ''glassdoor'']),
        (''results_wanted'', PInt 20),
        (''distance'', PInt 50),
        (''country_indeed'', PStr ''USA''),
        (''description_format'', PStr ''markdown''),
        (''linkedin_fetch_description'', PBool False),
        (''verbose'', PInt 1)]"
    by (simp add: clean_search_params_def model_dump_def field_defaults_def dump_opt_def)
  show ?thesis
    unfolding cleaned using accepted by (auto simp: fun_eq_iff)
qed

section \<open>Validation\<close>

text \<open>
  Claim C3. A body whose \<^verbatim>\<open>results_wanted\<close> is an integer outside [1, 1000], or
  whose \<^verbatim>\<open>verbose\<close> is an integer outside [0, 2], is rejected: validation returns
  errors, one of which names the offending field and holds the rejected value; the
  endpoint answers 422 with these errors, and the engine's invocation log is empty.
\<close>

theorem out_of_range_rejected:
  "(in_results_wanted body = Given v \<and> (v < 1 \<or> 1000 < v) \<longrightarrow>
      (\<exists>errors. validate body = Inl errors
         \<and> post_search pd w body = (Reply422 errors, [])
         \<and> (\<exists>e \<in> set errors. loc e = ''results_wanted'' \<and> rejected_input e = v)))
   \<and> (in_verbose body = Given v \<and> (v < 0 \<or> 2 < v) \<longrightarrow>
      (\<exists>errors. validate body = Inl errors
         \<and> post_search pd w body = (Reply422 errors, [])
         \<and> (\<exists>e \<in> set errors. loc e = ''verbose'' \<and> rejected_input e = v)))"
proof (intro conjI impI)
  assume "in_results_wanted body = Given v \<and> (v < 1 \<or> 1000 < v)"
  then obtain e where e: "range_errors ''results_wanted'' 1 1000 (in_results_wanted body) = [e]"
      "loc e = ''results_wanted''" "rejected_input e = v"
    using range_errors_outside [of v 1 1000 "''results_wanted''"] by auto
  let ?errors = "e # range_errors ''verbose'' 0 2 (in_verbose body)"
  have "validate body = Inl ?errors"
    by (simp add: validate_def e(1))
  moreover from this have "post_search pd w body = (Reply422 ?errors, [])"
    by (simp add: post_search_def)
  ultimately show "\<exists>errors. validate body = Inl errors
         \<and> post_search pd w body = (Reply422 errors, [])
         \<and> (\<exists>e \<in> set errors. loc e = ''results_wanted'' \<and> rejected_input e = v)"
    using e(2,3) by auto
next
  assume "in_verbose body = Given v \<and> (v < 0 \<or> 2 < v)"
  then obtain e where e: "range_errors ''verbose'' 0 2 (in_verbose body) = [e]"
      "loc e = ''verbose''" "rejected_input e = v"
    using range_errors_outside [of v 0 2 "''verbose''"] by auto
  let ?errors = "range_errors ''results_wanted'' 1 1000 (in_results_wanted body) @ [e]"
  have "validate body = Inl ?errors"
    by (simp add: validate_def e(1))
  moreover from this have "post_search pd w body = (Reply422 ?errors, [])"
    by (simp add: post_search_def)
  ultimately show "\<exists>errors. validate body = Inl errors
         \<and> post_search pd w body = (Reply422 errors, [])
         \<and> (\<exists>e \<in> set errors. loc e = ''verbose'' \<and> rejected_input e = v)"
    using e(2,3) by auto
qed

text \<open>
  \<^verbatim>\<open>results_wanted=2000\<close>, and \<^verbatim>\<open>verbose=3\<close>, against an engine that would
  answer: status 422 naming the field, no call of the engine.
\<close>

theorem out_of_range_rejected_witness:
  "in_results_wanted scenario_b_body = Given 2000
   \<and> post_search table_pandas (engine_returning five_jobs) scenario_b_body =
       (Reply422 [\<lparr>loc = ''results_wanted'', err_type = ''less_than_equal'', bound = 1000,
                    rejected_input = 2000\<rparr>], [])
   \<and> in_verbose loud_body = Given 3
   \<and> post_search table_pandas (engine_returning five_jobs) loud_body =
       (Reply422 [\<lparr>loc = ''verbose'', err_type = ''less_than_equal'', bound = 2,
                    rejected_input = 3\<rparr>], [])"
proof -
  have b: "in_results_wanted scenario_b_body = Given 2000 \<and> ((2000::int) < 1 \<or> (1000::int) < 2000)"
    by (simp add: scenario_b_body_def empty_body_def)
  have l: "in_verbose loud_body = Given 3 \<and> ((3::int) < 0 \<or> (2::int) < 3)"
    by (simp add: loud_body_def empty_body_def)
  from out_of_range_rejected [where body = scenario_b_body and v = 2000 and pd = table_pandas
        and w = "engine_returning five_jobs"] b validate_scenario_b
  have rb: "post_search table_pandas (engine_returning five_jobs) scenario_b_body =
       (Reply422 [\<lparr>loc = ''results_wanted'', err_type = ''less_than_equal'', bound = 1000,
                    rejected_input = 2000\<rparr>], [])"
    by auto
  from out_of_range_rejected [where body = loud_body and v = 3 and pd = table_pandas
        and w = "engine_returning five_jobs"] l validate_loud_body
  have rl: "post_search table_pandas (engine_returning five_jobs) loud_body =
       (Reply422 [\<lparr>loc = ''verbose'', err_type = ''less_than_equal'', bound = 2,
                    rejected_input = 3\<rparr>], [])"
    by auto
  from b l rb rl show ?thesis by simp
qed

text \<open>
  Claim C7, as amended. The class declares no constraint on the list of names given as
  \<^verbatim>\<open>site_name\<close>. Whether a body is accepted does not depend on its
  \<^verbatim>\<open>site_name\<close>, be it missing, \<^verbatim>\<open>null\<close> or any list of strings; an accepted
  request holds the supplied list as it is (the default when the key is missing, nothing
  when it is \<^verbatim>\<open>null\<close>); the normalized parameters hold that same list under
  \<^verbatim>\<open>site_name\<close>, the empty list included; and when the engine can be imported it is
  called once, with these parameters.
\<close>

theorem site_name_unconstrained:
  "isl (validate (body\<lparr>in_site_name := sites\<rparr>)) = isl (validate body)
   \<and> (validate body = Inr request \<longrightarrow>
        site_name request =
          (case in_site_name body of
             Unset \<Rightarrow> Some [''indeed'', ''linkedin'', ''glassdoor'']
           | Null \<Rightarrow> None
           | Given names \<Rightarrow> Some names))
   \<and> (validate body = Inr request \<and> in_site_name body = Given names \<longrightarrow>
        map_of (clean_search_params (model_dump request)) ''site_name'' =
          Some (PList (map PStr names)))
   \<and> (validate body = Inr request \<and> in_site_name body = Given names
        \<and> import_jobspy w = Inr scrape_jobs \<longrightarrow>
        (\<exists>params. snd (post_search pd w body) = [params]
           \<and> map_of params ''site_name'' = Some (PList (map PStr names))))"
proof (intro conjI impI)
  show "isl (validate (body\<lparr>in_site_name := sites\<rparr>)) = isl (validate body)"
    by (simp add: validate_def Let_def)
next
  assume "validate body = Inr request"
  from validate_site_name [OF this]
  show "site_name request =
          (case in_site_name body of
             Unset \<Rightarrow> Some [''indeed'', ''linkedin'', ''glassdoor'']
           | Null \<Rightarrow> None
           | Given names \<Rightarrow> Some names)"
    by (cases "in_site_name body") (simp_all add: field_defaults_def)
next
  assume "validate body = Inr request \<and> in_site_name body = Given names"
  with validate_site_name [of body request] have "site_name request = Some names"
    by simp
  then show "map_of (clean_search_params (model_dump request)) ''site_name'' =
          Some (PList (map PStr names))"
    by (rule site_name_param)
next
  assume a: "validate body = Inr request \<and> in_site_name body = Given names
        \<and> import_jobspy w = Inr scrape_jobs"
  with validate_site_name [of body request] have "site_name request = Some names"
    by simp
  then have param: "map_of (clean_search_params (model_dump request)) ''site_name'' =
          Some (PList (map PStr names))"
    by (rule site_name_param)
  from a have "snd (post_search pd w body) = [clean_search_params (model_dump request)]"
    by (simp add: post_search_calls search_jobs_calls)
  with param show "\<exists>params. snd (post_search pd w body) = [params]
           \<and> map_of params ''site_name'' = Some (PList (map PStr names))"
    by simp
qed

text \<open>
  The body with an empty list of sites: accepted as the body without the key is, and the
  engine is called with \<^verbatim>\<open>site_name=[]\<close>.
\<close>

theorem site_name_unconstrained_witness:
  "validate no_sites_body = Inr (field_defaults\<lparr>site_name := Some []\<rparr>)
   \<and> in_site_name no_sites_body = Given []
   \<and> isl (validate no_sites_body) = isl (validate empty_body)
   \<and> site_name (field_defaults\<lparr>site_name := Some []\<rparr>) = Some []
   \<and> map_of (clean_search_params (model_dump (field_defaults\<lparr>site_name := Some []\<rparr>)))
        ''site_name'' = Some (PList [])
   \<and> snd (post_search table_pandas (engine_returning five_jobs) no_sites_body) = [no_sites_params]
   \<and> map_of no_sites_params ''site_name'' = Some (PList [])"
proof -
  let ?request = "field_defaults\<lparr>site_name := Some []\<rparr>"
  have accepted: "validate no_sites_body = Inr ?request"
    by (simp add: validate_def no_sites_body_def empty_body_def field_defaults_def)
  have given: "in_site_name no_sites_body = Given []"
    by (simp add: no_sites_body_def)
  have engine: "import_jobspy (engine_returning five_jobs) = Inr (\<lambda>params. Inr five_jobs)"
    by (simp add: engine_returning_def)
  have cleaned: "clean_search_params (model_dump ?request) = no_sites_params"
    by (simp add: clean_search_params_def model_dump_def field_defaults_def dump_opt_def
        no_sites_params_def)
  note at_body = site_name_unconstrained [where body = no_sites_body and request = ?request
      and names = "[]" and w = "engine_returning five_jobs" and pd = table_pandas
      and scrape_jobs = "\<lambda>params. Inr five_jobs"]
  have same: "isl (validate no_sites_body) = isl (validate empty_body)"
    unfolding no_sites_body_def
    by (rule site_name_unconstrained [THEN conjunct1])
  from at_body accepted given have held: "site_name ?request = Some []"
    by simp
  from at_body accepted given
  have passed: "map_of (clean_search_params (model_dump ?request)) ''site_name'' = Some (PList [])"
    by simp
  have log: "snd (post_search table_pandas (engine_returning five_jobs) no_sites_body) =
      [no_sites_params]"
    using accepted engine cleaned by (simp add: post_search_calls search_jobs_calls)
  have entry: "map_of no_sites_params ''site_name'' = Some (PList [])"
    using passed by (simp only: cleaned)
  from accepted given same held passed log entry show ?thesis
    by (intro conjI) assumption+
qed

text \<open>
  Against claim C7 as stated: an empty \<^verbatim>\<open>site_name\<close> list is accepted, and so is a
  name that is none of the supported sites.
\<close>

theorem unrecognized_sites_accepted:
  "validate (empty_body\<lparr>in_site_name := Given []\<rparr>) = Inr (field_defaults\<lparr>site_name := Some []\<rparr>)
   \<and> validate (empty_body\<lparr>in_site_name := Given [''monster'']\<rparr>) =
       Inr (field_defaults\<lparr>site_name := Some [''monster'']\<rparr>)
   \<and> ''monster'' \<notin> set supported_sites"
  by (simp add: validate_def empty_body_def field_defaults_def supported_sites_def)

section \<open>The search handler\<close>

text \<open>
  Claim C4. Whenever the handler returns an envelope, its \<^verbatim>\<open>success\<close> is true, its
  \<^verbatim>\<open>total_jobs\<close> is the length of its \<^verbatim>\<open>jobs\<close>, its \<^verbatim>\<open>search_params\<close> are the
  normalized parameters of the request, which are also what the engine was called with,
  once, and its message is \<^verbatim>\<open>Successfully found n jobs\<close> for that same length; the
  jobs are the conversion of the data frame the engine returned.
\<close>

theorem successful_search_envelope:
  assumes "search_jobs pd w request = (Inr response, calls)"
  shows "success response
    \<and> total_jobs response = int (length (jobs response))
    \<and> search_params response = clean_search_params (model_dump request)
    \<and> calls = [search_params response]
    \<and> message response =
        ''Successfully found '' @ py_str_int (int (length (jobs response))) @ '' jobs''
    \<and> (\<exists>scrape_jobs jobs_df. import_jobspy w = Inr scrape_jobs
          \<and> scrape_jobs (search_params response) = Inr jobs_df
          \<and> jobs response = convert_dataframe_to_dict pd jobs_df)"
  using assms
  by (auto simp: search_jobs_def Let_def split: sum.splits)

text \<open>The search on one site with an engine that returns five rows.\<close>

theorem successful_search_envelope_witness:
  "validate scenario_a_body = Inr scenario_a_request
   \<and> search_jobs table_pandas (engine_returning five_jobs) scenario_a_request =
       (Inr scenario_a_response, [scenario_a_params])
   \<and> success scenario_a_response
   \<and> total_jobs scenario_a_response = 5
   \<and> length (jobs scenario_a_response) = 5
   \<and> search_params scenario_a_response = scenario_a_params
   \<and> map_of scenario_a_params ''hours_old'' = None
   \<and> message scenario_a_response = ''Successfully found 5 jobs''"
proof -
  have shape: "total_jobs scenario_a_response = 5" "length (jobs scenario_a_response) = 5"
    "map_of scenario_a_params ''hours_old'' = None"
    by (simp_all add: scenario_a_response_def five_jobs_def scenario_a_params_def)
  from successful_search_envelope [OF search_scenario_a] search_scenario_a validate_scenario_a
    shape clean_scenario_a
  show ?thesis by (simp add: py_str_int_5)
qed

text \<open>
  Claim C5, as amended. The handler tells faults apart by their exception class, wherever
  they arise: an \<^verbatim>\<open>ImportError\<close>, from importing the engine or from the engine when
  it is called, gives status 500 with the fixed detail \<^verbatim>\<open>JobSpy library not available\<close>;
  any other exception with message \<^verbatim>\<open>m\<close> gives status 500 with the detail
  \<^verbatim>\<open>Search failed: m\<close>. The raised error holds a status and a detail only: no rows
  and no \<^verbatim>\<open>total_jobs\<close>. The engine is called at most once.
\<close>

theorem search_failure_by_exception_class:
  "(import_jobspy w = Inl (ImportError m) \<longrightarrow>
      search_jobs pd w request = (Inl (HTTPException 500 ''JobSpy library not available''), []))
   \<and> (import_jobspy w = Inl (Exception m) \<longrightarrow>
      search_jobs pd w request = (Inl (HTTPException 500 (''Search failed: '' @ m)), []))
   \<and> (import_jobspy w = Inr scrape_jobs
        \<and> scrape_jobs (clean_search_params (model_dump request)) = Inl (ImportError m) \<longrightarrow>
      search_jobs pd w request =
        (Inl (HTTPException 500 ''JobSpy library not available''),
         [clean_search_params (model_dump request)]))
   \<and> (import_jobspy w = Inr scrape_jobs
        \<and> scrape_jobs (clean_search_params (model_dump request)) = Inl (Exception m) \<longrightarrow>
      search_jobs pd w request =
        (Inl (HTTPException 500 (''Search failed: '' @ m)),
         [clean_search_params (model_dump request)]))"
  by (simp add: search_jobs_def)

theorem search_failure_by_exception_class_witness:
  "search_jobs table_pandas (engine_missing (ImportError ''No module named jobspy''))
       scenario_a_request =
     (Inl (HTTPException 500 ''JobSpy library not available''), [])
   \<and> search_jobs table_pandas (engine_missing (Exception ''bad engine build''))
       scenario_a_request =
     (Inl (HTTPException 500 ''Search failed: bad engine build''), [])
   \<and> search_jobs table_pandas (engine_raising (ImportError ''No module named lxml''))
       scenario_a_request =
     (Inl (HTTPException 500 ''JobSpy library not available''), [scenario_a_params])
   \<and> search_jobs table_pandas (engine_raising (Exception ''connection reset''))
       scenario_a_request =
     (Inl (HTTPException 500 ''Search failed: connection reset''), [scenario_a_params])"
  using
    search_failure_by_exception_class [where pd = table_pandas and request = scenario_a_request
      and w = "engine_missing (ImportError ''No module named jobspy'')"
      and m = "''No module named jobspy''"]
    search_failure_by_exception_class [where pd = table_pandas and request = scenario_a_request
      and w = "engine_missing (Exception ''bad engine build'')"
      and m = "''bad engine build''"]
    search_failure_by_exception_class [where pd = table_pandas and request = scenario_a_request
      and w = "engine_raising (ImportError ''No module named lxml'')"
      and m = "''No module named lxml''"
      and scrape_jobs = "\<lambda>params. Inl (ImportError ''No module named lxml'')"]
    search_failure_by_exception_class [where pd = table_pandas and request = scenario_a_request
      and w = "engine_raising (Exception ''connection reset'')"
      and m = "''connection reset''"
      and scrape_jobs = "\<lambda>params. Inl (Exception ''connection reset'')"]
  by (simp add: engine_missing_def engine_raising_def clean_scenario_a)

text \<open>
  Against claim C5 as stated: the engine is imported and called, and raises an
  \<^verbatim>\<open>ImportError\<close> with the message \<^verbatim>\<open>No module named lxml\<close>; the detail of the
  error is the fixed text, in which the message does not occur.
\<close>

theorem engine_import_error_not_forwarded:
  "search_jobs table_pandas (engine_raising (ImportError ''No module named lxml''))
       scenario_a_request =
     (Inl (HTTPException 500 ''JobSpy library not available''), [scenario_a_params])
   \<and> \<not> sublist ''No module named lxml'' ''JobSpy library not available''"
proof -
  have "\<not> sublist ''No module named lxml'' ''JobSpy library not available''"
    by code_simp
  then show ?thesis
    by (simp add: search_jobs_def engine_raising_def clean_scenario_a)
qed

text \<open>
  Claim C10. Every outcome of the handler is an envelope with \<^verbatim>\<open>success\<close> true or a
  raised HTTP error with status 500 and a detail string; at the endpoint, every reply is
  such an envelope, a 422 with a non-empty list of validation errors, or a 500 with a
  detail string. No envelope with \<^verbatim>\<open>success\<close> false is ever built.
\<close>

theorem only_success_envelopes:
  "((\<exists>response. fst (search_jobs pd w request) = Inr response \<and> success response)
      \<or> (\<exists>text. fst (search_jobs pd w request) = Inl (HTTPException 500 text)))
   \<and> ((\<exists>response. fst (post_search pd w body) = Reply200 response \<and> success response)
      \<or> (\<exists>errors. fst (post_search pd w body) = Reply422 errors \<and> errors \<noteq> [])
      \<or> (\<exists>text. fst (post_search pd w body) = ReplyError 500 text))"
proof
  show "(\<exists>response. fst (search_jobs pd w request) = Inr response \<and> success response)
      \<or> (\<exists>text. fst (search_jobs pd w request) = Inl (HTTPException 500 text))"
    by (rule search_jobs_outcome)
next
  show "(\<exists>response. fst (post_search pd w body) = Reply200 response \<and> success response)
      \<or> (\<exists>errors. fst (post_search pd w body) = Reply422 errors \<and> errors \<noteq> [])
      \<or> (\<exists>text. fst (post_search pd w body) = ReplyError 500 text)"
  proof (cases "validate body")
    case (Inl errors)
    with validate_errors(2) [OF Inl] show ?thesis
      by (simp add: post_search_def)
  next
    case (Inr request')
    obtain outcome calls where run: "search_jobs pd w request' = (outcome, calls)"
      by (cases "search_jobs pd w request'")
    from search_jobs_outcome [of pd w request'] run
    have "(\<exists>response. outcome = Inr response \<and> success response)
        \<or> (\<exists>text. outcome = Inl (HTTPException 500 text))"
      by simp
    then show ?thesis
      using Inr run by (auto simp: post_search_def)
  qed
qed

section \<open>The conversion of the engine's table\<close>

text \<open>
  Claim C6, on the frame of two jobs. The second row misses both cells. The conversion
  turns the missing title, in the \<^verbatim>\<open>object\<close> column, into \<^verbatim>\<open>None\<close>; the
  missing \<^verbatim>\<open>min_amount\<close>, in the \<^verbatim>\<open>float64\<close> column, is still the not-a-number
  marker in the record, not \<^verbatim>\<open>None\<close>. The cells that are not missing are carried
  over unchanged.
\<close>

theorem float_column_keeps_nan:
  "convert_dataframe_to_dict typed_pandas salary_frame =
     [[(''title'', CObj (PStr ''Engineer'')), (''min_amount'', CFloat 50000)],
      [(''title'', CObj PNone), (''min_amount'', CNaN)]]
   \<and> missing (rows salary_frame ! 1 ! 1)
   \<and> map_of (convert_dataframe_to_dict typed_pandas salary_frame ! 1) ''min_amount''
        \<noteq> Some (CObj PNone)"
  by (simp add: convert_dataframe_to_dict_def typed_pandas_def notnull_def where_frame_def
      where_row_def to_dict_def salary_frame_def)

section \<open>Health and capabilities\<close>

text \<open>
  Claim C8. The capabilities handler returns the same document in every environment:
  two calls, whatever the clock and the engine are at each, give equal values; the
  document is the literal with its six keys.
\<close>

theorem capabilities_constant:
  "get_supported_sites w = get_supported_sites w'
   \<and> (\<exists>entries. get_supported_sites w = PDict entries
        \<and> map fst entries =
            [''supported_sites'', ''job_types'', ''description_formats'',
             ''supported_countries'', ''limitations'', ''tips''])"
  by (simp add: get_supported_sites_def)

text \<open>
  Claim C9. Both health handlers are total and return \<^verbatim>\<open>status\<close> \<^verbatim>\<open>healthy\<close>,
  \<^verbatim>\<open>version\<close> \<^verbatim>\<open>1.0.0\<close> and the clock's reading as \<^verbatim>\<open>timestamp\<close>; two calls
  differ in the timestamp at most.
\<close>

theorem health_fixed_literals:
  "status (root w) = ''healthy'' \<and> version (root w) = ''1.0.0''
   \<and> timestamp (root w) = datetime_now_isoformat w
   \<and> status (health_check w) = ''healthy'' \<and> version (health_check w) = ''1.0.0''
   \<and> timestamp (health_check w) = datetime_now_isoformat w
   \<and> root w\<lparr>timestamp := t\<rparr> = root w'\<lparr>timestamp := t\<rparr>
   \<and> health_check w\<lparr>timestamp := t\<rparr> = health_check w'\<lparr>timestamp := t\<rparr>"
  by (simp add: root_def health_check_def)

end
